theory Spec2Isabelle
  imports Complex_Main
begin

section \<open>Numbers of the program\<close>

text \<open>
  The program computes with Python and numpy floating-point numbers. A finite float is
  modelled by the rational number it denotes and finite arithmetic is exact (rounding to
  53 bits, overflow to infinity and the sign of zero are not modelled). The special values
  of IEEE arithmetic that numpy produces instead of raising (division by zero gives an
  infinity or NaN) are kept, since the control loop divides by a measured quantity.
\<close>

datatype npfloat = Fin rat | PInf | NInf | NaN

datatype error = ValueError | IndexError | OverflowError | ZeroDivisionError
  | UnicodeEncodeError

fun np_neg :: "npfloat \<Rightarrow> npfloat" where
  "np_neg (Fin a) = Fin (- a)"
| "np_neg PInf = NInf"
| "np_neg NInf = PInf"
| "np_neg NaN = NaN"

fun np_add :: "npfloat \<Rightarrow> npfloat \<Rightarrow> npfloat" where
  "np_add (Fin a) (Fin b) = Fin (a + b)"
| "np_add NaN y = NaN"
| "np_add x NaN = NaN"
| "np_add PInf NInf = NaN"
| "np_add NInf PInf = NaN"
| "np_add PInf y = PInf"
| "np_add NInf y = NInf"
| "np_add x PInf = PInf"
| "np_add x NInf = NInf"

definition np_sub :: "npfloat \<Rightarrow> npfloat \<Rightarrow> npfloat" where
  "np_sub x y = np_add x (np_neg y)"

definition inf_of_sign :: "rat \<Rightarrow> npfloat" where
  "inf_of_sign s = (if s = 0 then NaN else if 0 < s then PInf else NInf)"

fun np_mul :: "npfloat \<Rightarrow> npfloat \<Rightarrow> npfloat" where
  "np_mul (Fin a) (Fin b) = Fin (a * b)"
| "np_mul NaN y = NaN"
| "np_mul x NaN = NaN"
| "np_mul PInf (Fin b) = inf_of_sign b"
| "np_mul NInf (Fin b) = inf_of_sign (- b)"
| "np_mul (Fin a) PInf = inf_of_sign a"
| "np_mul (Fin a) NInf = inf_of_sign (- a)"
| "np_mul PInf PInf = PInf"
| "np_mul NInf NInf = PInf"
| "np_mul PInf NInf = NInf"
| "np_mul NInf PInf = NInf"

text \<open>
  numpy's \<open>/\<close> on float64 scalars: a zero divisor does not raise, it gives an infinity
  of the sign of the dividend, or NaN for \<open>0 / 0\<close>. A zero divisor is the positive zero.
\<close>

fun np_div :: "npfloat \<Rightarrow> npfloat \<Rightarrow> npfloat" where
  "np_div (Fin a) (Fin b) = (if b = 0 then inf_of_sign a else Fin (a / b))"
| "np_div NaN y = NaN"
| "np_div x NaN = NaN"
| "np_div (Fin a) PInf = Fin 0"
| "np_div (Fin a) NInf = Fin 0"
| "np_div PInf (Fin b) = (if 0 \<le> b then PInf else NInf)"
| "np_div NInf (Fin b) = (if 0 \<le> b then NInf else PInf)"
| "np_div PInf y = NaN"
| "np_div NInf y = NaN"

fun np_abs :: "npfloat \<Rightarrow> npfloat" where
  "np_abs (Fin a) = Fin \<bar>a\<bar>"
| "np_abs PInf = PInf"
| "np_abs NInf = PInf"
| "np_abs NaN = NaN"

text \<open>\<open>x < y\<close>: every comparison with NaN is false.\<close>

fun np_less :: "npfloat \<Rightarrow> npfloat \<Rightarrow> bool" where
  "np_less NaN y = False"
| "np_less x NaN = False"
| "np_less (Fin a) (Fin b) = (a < b)"
| "np_less x NInf = False"
| "np_less PInf y = False"
| "np_less NInf y = True"
| "np_less x PInf = True"

text \<open>
  Python's \<open>int(x)\<close> on a float truncates towards zero; it raises ValueError on NaN and
  OverflowError on an infinity.
\<close>

definition trunc :: "rat \<Rightarrow> int" where
  "trunc x = (if 0 \<le> x then \<lfloor>x\<rfloor> else \<lceil>x\<rceil>)"

fun py_int :: "npfloat \<Rightarrow> error + int" where
  "py_int (Fin x) = Inr (trunc x)"
| "py_int NaN = Inl ValueError"
| "py_int PInf = Inl OverflowError"
| "py_int NInf = Inl OverflowError"

text \<open>
  Python's \<open>round(x)\<close> to an integer rounds to the nearest one, a tie to the even
  neighbour; \<open>round(x, 2)\<close> does so at the second decimal place. The result of
  \<open>round(x, 2)\<close> is modelled by the decimal itself.
\<close>

definition py_round :: "rat \<Rightarrow> int" where
  "py_round x =
     (let f = \<lfloor>x\<rfloor>; r = x - of_int f
      in if r < 1 / 2 then f else if 1 / 2 < r then f + 1
         else if even f then f else f + 1)"

definition py_round2 :: "rat \<Rightarrow> rat" where
  "py_round2 x = of_int (py_round (x * 100)) / 100"

section \<open>ELL14.py: the stage driver\<close>

text \<open>
  An \<open>ElliptecController\<close> object. \<open>pulses_per_turn\<close> is the class attribute that the
  methods read through \<open>self\<close>; the constructor leaves it at 143360.
\<close>

record ElliptecController =
  address :: string
  verbose :: bool
  position :: rat
  pulses_per_turn :: int

text \<open>\<open>_deg_to_pulses\<close>: \<open>int(degrees * self.pulses_per_turn / 360)\<close>.\<close>

definition deg_to_pulses :: "ElliptecController \<Rightarrow> npfloat \<Rightarrow> error + int" where
  "deg_to_pulses self degrees =
     py_int (np_div (np_mul degrees (Fin (of_int (pulses_per_turn self)))) (Fin 360))"

text \<open>
  \<open>_pulses_to_deg\<close>: a raw value from \<open>0x80000000\<close> on is read as a negative 32-bit
  number; the division of Python floats raises on a zero divisor.
\<close>

definition pulses_to_deg :: "ElliptecController \<Rightarrow> int \<Rightarrow> error + rat" where
  "pulses_to_deg self pulses =
     (let p = (if 2147483648 \<le> pulses then pulses - 4294967296 else pulses)
      in if pulses_per_turn self = 0 then Inl ZeroDivisionError
         else Inr (of_int p * 360 / of_int (pulses_per_turn self)))"

subsection \<open>Strings of the serial protocol\<close>

text \<open>
  A Python \<open>str\<close> is modelled by a list of characters with code points below 256.
\<close>

definition is_ascii :: "char \<Rightarrow> bool" where
  "is_ascii c = ((of_char c :: nat) < 128)"

text \<open>The characters that \<open>str.strip()\<close> removes (those with \<open>str.isspace\<close>).\<close>

definition is_space :: "char \<Rightarrow> bool" where
  "is_space c =
     (let n = (of_char c :: nat)
      in (9 \<le> n \<and> n \<le> 13) \<or> (28 \<le> n \<and> n \<le> 32) \<or> n = 133 \<or> n = 160)"

definition py_strip :: "string \<Rightarrow> string" where
  "py_strip s = rev (dropWhile is_space (rev (dropWhile is_space s)))"

text \<open>
  The characters that \<open>int(s, 16)\<close> skips around the number: the ASCII blanks, and the
  two further blanks below 256 that the conversion first maps to a space.
\<close>

definition is_int_space :: "char \<Rightarrow> bool" where
  "is_int_space c =
     (let n = (of_char c :: nat)
      in (9 \<le> n \<and> n \<le> 13) \<or> n = 32 \<or> n = 133 \<or> n = 160)"

definition hex_val :: "char \<Rightarrow> nat option" where
  "hex_val c =
     (let n = (of_char c :: nat)
      in if 48 \<le> n \<and> n \<le> 57 then Some (n - 48)
         else if 97 \<le> n \<and> n \<le> 102 then Some (n - 87)
         else if 65 \<le> n \<and> n \<le> 70 then Some (n - 55)
         else None)"

text \<open>
  The digits of \<open>int(s, 16)\<close>: hexadecimal digits, with single underscores between
  them; the flag says that the previous character was an underscore.
\<close>

fun hex_digits :: "int \<Rightarrow> bool \<Rightarrow> string \<Rightarrow> int option" where
  "hex_digits acc prev [] = (if prev then None else Some acc)"
| "hex_digits acc prev (c # cs) =
     (if c = CHR ''_'' then (if prev then None else hex_digits acc True cs)
      else (case hex_val c of
              None \<Rightarrow> None
            | Some d \<Rightarrow> hex_digits (16 * acc + int d) False cs))"

definition skip_sign :: "string \<Rightarrow> int \<times> string" where
  "skip_sign s =
     (case s of
        [] \<Rightarrow> (1, [])
      | c # r \<Rightarrow> if c = CHR ''+'' then (1, r) else if c = CHR ''-'' then (- 1, r) else (1, s))"

definition skip_prefix :: "string \<Rightarrow> string" where
  "skip_prefix s =
     (case s of
        a # b # r \<Rightarrow>
          if a = CHR ''0'' \<and> (b = CHR ''x'' \<or> b = CHR ''X'')
          then (case r of [] \<Rightarrow> r | u # r' \<Rightarrow> if u = CHR ''_'' then r' else r)
          else s
      | _ \<Rightarrow> s)"

text \<open>
  \<open>int(s, 16)\<close> on a string: blanks around the number, an optional sign, an optional
  \<open>0x\<close> prefix (one underscore may follow it), then at least one digit. \<open>None\<close> is the
  ValueError of Python.
\<close>

definition py_int16 :: "string \<Rightarrow> int option" where
  "py_int16 s =
     (let s1 = rev (dropWhile is_int_space (rev (dropWhile is_int_space s)));
          (sg, s2) = skip_sign s1;
          s3 = skip_prefix s2
      in case s3 of
           [] \<Rightarrow> None
         | c # _ \<Rightarrow> if c = CHR ''_'' then None
                    else map_option (\<lambda>v. sg * v) (hex_digits 0 False s3))"

text \<open>\<open>resp[-8:]\<close>: the last eight characters, or all of them when there are fewer.\<close>

definition last8 :: "string \<Rightarrow> string" where
  "last8 resp = drop (length resp - 8) resp"

text \<open>\<open>format(pulses & 0xFFFFFFFF, '08X')\<close>: eight upper-case hexadecimal digits.\<close>

definition hex_digit :: "nat \<Rightarrow> char" where
  "hex_digit d = ''0123456789ABCDEF'' ! d"

definition format_08X :: "int \<Rightarrow> string" where
  "format_08X pulses =
     (let v = pulses mod 4294967296
      in map (\<lambda>i. hex_digit (nat (v div 16 ^ i mod 16))) [7, 6, 5, 4, 3, 2, 1, 0])"



subsection \<open>The serial link\<close>

text \<open>
  The serial port is a class attribute shared by all controllers. \<open>sent\<close> collects every
  \<open>write\<close>, in order; \<open>inbox\<close> holds the lines that the coming \<open>readline\<close> calls
  return (the raw bytes of each line), and a \<open>readline\<close> on an empty inbox is the
  timeout, which returns no bytes. Stale buffered input, which \<open>_purge\<close> discards, the
  waiting times and the text printed on the console are not part of the model.
\<close>

record link =
  sent :: "string list"
  inbox :: "string list"

definition crlf :: string where
  "crlf = [CHR 0x0D, CHR 0x0A]"

text \<open>\<open>__init__\<close> of the controller: every address is stored as given.\<close>

definition controller_init :: "string \<Rightarrow> bool \<Rightarrow> link \<Rightarrow> (error + ElliptecController) \<times> link" where
  "controller_init addr verb l =
     (Inr \<lparr>address = addr, verbose = verb, position = 0, pulses_per_turn = 143360\<rparr>, l)"

text \<open>
  \<open>_send_cmd\<close>: encoding the frame as ASCII raises before anything is written; the
  response is decoded as ASCII, other bytes dropped, and stripped.
\<close>

definition send_cmd :: "ElliptecController \<Rightarrow> string \<Rightarrow> link \<Rightarrow> (error + string) \<times> link" where
  "send_cmd self cmd l =
     (let full = address self @ cmd
      in if \<not> list_all is_ascii full then (Inl UnicodeEncodeError, l)
         else
           let l1 = l\<lparr>sent := sent l @ [full, crlf]\<rparr>
           in (case inbox l1 of
                 [] \<Rightarrow> (Inr (py_strip []), l1)
               | line # rest \<Rightarrow> (Inr (py_strip (filter is_ascii line)), l1\<lparr>inbox := rest\<rparr>)))"

text \<open>
  \<open>_update_position\<close>: the body of the \<open>try\<close> is \<open>decode_position\<close>; the handler
  catches ValueError only, any other exception leaves the method.
\<close>

definition decode_position :: "ElliptecController \<Rightarrow> string \<Rightarrow> error + rat" where
  "decode_position self resp =
     (case py_int16 (last8 resp) of
        None \<Rightarrow> Inl ValueError
      | Some v \<Rightarrow> (case pulses_to_deg self v of
                    Inl e \<Rightarrow> Inl e
                  | Inr x \<Rightarrow> Inr (py_round2 x)))"

definition update_position :: "ElliptecController \<Rightarrow> string \<Rightarrow> error option \<times> ElliptecController" where
  "update_position self resp =
     (case decode_position self resp of
        Inr x \<Rightarrow> (None, self\<lparr>position := x\<rparr>)
      | Inl e \<Rightarrow> if e = ValueError then (None, self) else (Some e, self))"

definition get_position_deg :: "ElliptecController \<Rightarrow> rat" where
  "get_position_deg self = position self"

text \<open>
  The commands that move the stage share one shape: send, then update the position from
  the response, then return the response.
\<close>

definition send_and_update ::
  "ElliptecController \<Rightarrow> string \<Rightarrow> link \<Rightarrow> (error + string) \<times> ElliptecController \<times> link" where
  "send_and_update self cmd l =
     (case send_cmd self cmd l of
        (Inl e, l1) \<Rightarrow> (Inl e, self, l1)
      | (Inr resp, l1) \<Rightarrow>
          (case update_position self resp of
             (Some e, self1) \<Rightarrow> (Inl e, self1, l1)
           | (None, self1) \<Rightarrow> (Inr resp, self1, l1)))"




definition move_absolute_deg ::
  "ElliptecController \<Rightarrow> npfloat \<Rightarrow> link \<Rightarrow> (error + string) \<times> ElliptecController \<times> link" where
  "move_absolute_deg self degrees l =
     (case deg_to_pulses self degrees of
        Inl e \<Rightarrow> (Inl e, self, l)
      | Inr pulses \<Rightarrow> send_and_update self (''ma'' @ format_08X pulses) l)"

definition move_relative_deg ::
  "ElliptecController \<Rightarrow> npfloat \<Rightarrow> link \<Rightarrow> (error + string) \<times> ElliptecController \<times> link" where
  "move_relative_deg self degrees l =
     (case deg_to_pulses self degrees of
        Inl e \<Rightarrow> (Inl e, self, l)
      | Inr pulses \<Rightarrow> send_and_update self (''mr'' @ format_08X pulses) l)"


section \<open>Compensation.py: the polarization optimizer\<close>

text \<open>
  A \<open>ContinuousPolarizationOptimizer\<close> object. The controllers of the tuple
  \<open>_waveplates\<close> are kept in the state, since moving a stage changes the cached
  position of its controller. \<open>_previous_positions\<close> is the two-dimensional array of
  stored position vectors, one row per stored QBER; its rows have as many columns as
  there are waveplates, fixed by the constructor.
\<close>

record ContinuousPolarizationOptimizer =
  waveplates :: "ElliptecController list"
  max_stepsize_deg :: rat
  threshold :: rat
  positions :: "rat list"
  current_wp :: nat
  current_pos :: nat
  origin_position :: rat
  qbers :: "rat list"
  n_stored :: int
  previous_qbers :: "rat list"
  previous_positions :: "rat list list"

text \<open>\<open>__init__\<close> of the optimizer: no argument is checked.\<close>

definition optimizer_init ::
  "ElliptecController list \<Rightarrow> rat \<Rightarrow> rat \<Rightarrow> int \<Rightarrow> error + ContinuousPolarizationOptimizer" where
  "optimizer_init wps max_step thr n =
     Inr \<lparr>waveplates = wps, max_stepsize_deg = max_step, threshold = thr,
          positions = replicate (length wps) 0,
          current_wp = 0, current_pos = 1, origin_position = 0,
          qbers = [1 / 10, 1 / 10, 1 / 10],
          n_stored = n, previous_qbers = [1 / 2],
          previous_positions = [replicate (length wps) 0]\<rparr>"

text \<open>\<open>get_positions\<close> reads the controllers 0 and 1; a shorter tuple raises.\<close>

definition get_positions :: "ContinuousPolarizationOptimizer \<Rightarrow> error + rat list" where
  "get_positions st =
     (if length (waveplates st) < 2 then Inl IndexError
      else Inr [get_position_deg (waveplates st ! 0), get_position_deg (waveplates st ! 1)])"

text \<open>\<open>np.min\<close> raises on an empty array; \<open>np.argmin\<close> is the first index of the minimum.\<close>

fun np_min :: "rat list \<Rightarrow> error + rat" where
  "np_min [] = Inl ValueError"
| "np_min (x # xs) = Inr (fold min xs x)"

definition np_argmin :: "rat list \<Rightarrow> nat" where
  "np_argmin xs =
     (case np_min xs of Inl e \<Rightarrow> 0 | Inr m \<Rightarrow> length (takeWhile (\<lambda>y. y \<noteq> m) xs))"

definition np_row :: "rat list list \<Rightarrow> nat \<Rightarrow> error + rat list" where
  "np_row a i = (if i < length a then Inr (a ! i) else Inl IndexError)"

text \<open>
  The \<open>try\<close> block of \<open>random_minimizer\<close> (lines 91 to 107): every exception in it is
  caught and printed, and the assignments made before it stay. \<open>np.append\<close> along
  axis 0 raises when the new row has not the column count of the array, that is when
  the two positions read do not match the number of waveplates.
\<close>

definition random_minimizer_try ::
  "rat \<Rightarrow> ContinuousPolarizationOptimizer \<Rightarrow> ContinuousPolarizationOptimizer" where
  "random_minimizer_try qber st =
     (case get_positions st of
        Inl e \<Rightarrow> st
      | Inr current \<Rightarrow>
          (case np_min (previous_qbers st) of
             Inl e \<Rightarrow> st
           | Inr m \<Rightarrow>
               (case (if qber < m then Inr current
                      else np_row (previous_positions st) (np_argmin (previous_qbers st))) of
                  Inl e \<Rightarrow> st
                | Inr p \<Rightarrow>
                    let st1 = st\<lparr>positions := p\<rparr>
                    in if int (length (previous_qbers st1)) < n_stored st1
                       then
                         let st2 = st1\<lparr>previous_qbers := previous_qbers st1 @ [qber]\<rparr>
                         in if length current = length (waveplates st2)
                            then st2\<lparr>previous_positions := previous_positions st2 @ [current]\<rparr>
                            else st2
                       else
                         let st2 = st1\<lparr>previous_qbers := drop 1 (previous_qbers st1) @ [qber]\<rparr>
                         in if length current = length (waveplates st2)
                            then st2\<lparr>previous_positions :=
                                       drop 1 (previous_positions st2) @ [current]\<rparr>
                            else st2)))"

text \<open>
  \<open>self._waveplates[i].move_absolute_deg(x)\<close> and the same with \<open>move_relative_deg\<close>:
  the index may be out of range; the controller and the link change even when the call
  raises after sending.
\<close>

definition wp_move_absolute_deg ::
  "nat \<Rightarrow> npfloat \<Rightarrow> ContinuousPolarizationOptimizer \<times> link
     \<Rightarrow> error option \<times> ContinuousPolarizationOptimizer \<times> link" where
  "wp_move_absolute_deg i x s =
     (case s of (st, l) \<Rightarrow>
        if length (waveplates st) \<le> i then (Some IndexError, st, l)
        else (case move_absolute_deg (waveplates st ! i) x l of
                (r, w, l1) \<Rightarrow>
                  ((case r of Inl e \<Rightarrow> Some e | Inr resp \<Rightarrow> None),
                   st\<lparr>waveplates := (waveplates st)[i := w]\<rparr>, l1)))"

definition wp_move_relative_deg ::
  "nat \<Rightarrow> npfloat \<Rightarrow> ContinuousPolarizationOptimizer \<times> link
     \<Rightarrow> error option \<times> ContinuousPolarizationOptimizer \<times> link" where
  "wp_move_relative_deg i x s =
     (case s of (st, l) \<Rightarrow>
        if length (waveplates st) \<le> i then (Some IndexError, st, l)
        else (case move_relative_deg (waveplates st ! i) x l of
                (r, w, l1) \<Rightarrow>
                  ((case r of Inl e \<Rightarrow> Some e | Inr resp \<Rightarrow> None),
                   st\<lparr>waveplates := (waveplates st)[i := w]\<rparr>, l1)))"

text \<open>
  \<open>random_minimizer\<close>. The two random draws are arguments: \<open>delta_phi\<close> is the value of
  \<open>np.random.uniform\<close> and \<open>wp\<close> the value of \<open>np.random.randint(0, 2)\<close>.
\<close>

definition random_minimizer ::
  "rat \<Rightarrow> rat \<Rightarrow> nat \<Rightarrow> ContinuousPolarizationOptimizer \<times> link
     \<Rightarrow> error option \<times> ContinuousPolarizationOptimizer \<times> link" where
  "random_minimizer qber delta_phi wp s =
     (case s of (st, l) \<Rightarrow>
        (case wp_move_relative_deg wp (Fin delta_phi) (random_minimizer_try qber st, l) of
           (Some e, st2, l2) \<Rightarrow> (Some e, st2, l2)
         | (None, st2, l2) \<Rightarrow>
             (case get_positions st2 of
                Inl e \<Rightarrow> (Some e, st2, l2)
              | Inr ps \<Rightarrow> (None, st2\<lparr>positions := ps\<rparr>, l2))))"

text \<open>
  A measurement loop that calls \<open>random_minimizer\<close> once per sample and stops at the
  first exception that leaves it.
\<close>

fun run_random_minimizer ::
  "(rat \<times> rat \<times> nat) list \<Rightarrow> ContinuousPolarizationOptimizer \<times> link
     \<Rightarrow> error option \<times> ContinuousPolarizationOptimizer \<times> link" where
  "run_random_minimizer [] s = (None, s)"
| "run_random_minimizer (x # xs) s =
     (case random_minimizer (fst x) (fst (snd x)) (snd (snd x)) s of
        (Some e, s1) \<Rightarrow> (Some e, s1)
      | (None, s1) \<Rightarrow> run_random_minimizer xs s1)"

text \<open>
  Lines 144 to 157 of \<open>coordinate_descent_2nd_order\<close>: the position to move to, from
  the three samples. The samples are numpy scalars, so the divisions follow \<open>np_div\<close>.
  Unpacking an array that has not three entries raises ValueError.
\<close>

definition newton_target :: "rat \<Rightarrow> rat list \<Rightarrow> rat \<Rightarrow> error + npfloat" where
  "newton_target max_step qs pos =
     (case qs of
        [q_l, q, q_r] \<Rightarrow>
          let dQ_dV = np_div (Fin (q_r - q_l)) (Fin (2 * max_step));
              dQ2_dV2 = np_div (Fin (q_r - 2 * q + q_l)) (Fin (max_step ^ 2));
              step = np_div dQ_dV dQ2_dV2;
              sign = (if np_less step (Fin 0) then - 1 else 1);
              step1 = (if np_less (Fin 5) (np_abs step) then Fin (sign * 5) else step)
          in Inr (if np_less (Fin 0) dQ2_dV2 then np_sub (Fin pos) step1
                  else np_add (Fin pos) step1)
      | _ \<Rightarrow> Inl ValueError)"

text \<open>Lines 159 to 165: refresh the positions, then advance the slot and the stage.\<close>

definition advance ::
  "ContinuousPolarizationOptimizer \<Rightarrow> error option \<times> ContinuousPolarizationOptimizer" where
  "advance st =
     (case get_positions st of
        Inl e \<Rightarrow> (Some e, st)
      | Inr ps \<Rightarrow>
          let st1 = st\<lparr>positions := ps\<rparr>;
              st2 = st1\<lparr>current_pos := (current_pos st1 + 1) mod 3\<rparr>
          in (None, if current_pos st2 = 1
                    then st2\<lparr>current_wp := (current_wp st2 + 1) mod 2\<rparr> else st2))"

definition coordinate_descent_2nd_order ::
  "rat \<Rightarrow> ContinuousPolarizationOptimizer \<times> link
     \<Rightarrow> error option \<times> ContinuousPolarizationOptimizer \<times> link" where
  "coordinate_descent_2nd_order qber s =
     (case s of (st, l) \<Rightarrow>
        if qber < threshold st then (None, st\<lparr>current_wp := 0, current_pos := 1\<rparr>, l)
        else
          (case (if current_pos st = 1
                 then (if length (waveplates st) \<le> current_wp st then Inl IndexError
                       else let p = get_position_deg (waveplates st ! current_wp st)
                            in Inr (p, st\<lparr>origin_position := p\<rparr>))
                 else Inr (origin_position st, st)) of
             Inl e \<Rightarrow> (Some e, st, l)
           | Inr (pos, st1) \<Rightarrow>
               if length (qbers st1) \<le> current_pos st1 then (Some IndexError, st1, l)
               else
                 let st2 = st1\<lparr>qbers := (qbers st1)[current_pos st1 := qber]\<rparr>
                 in (case (if current_pos st2 = 1
                           then wp_move_absolute_deg (current_wp st2)
                                  (Fin (pos + max_stepsize_deg st2)) (st2, l)
                           else if current_pos st2 = 2
                           then wp_move_absolute_deg (current_wp st2)
                                  (Fin (pos - max_stepsize_deg st2)) (st2, l)
                           else if current_pos st2 = 0
                           then (case newton_target (max_stepsize_deg st2) (qbers st2) pos of
                                   Inl e \<Rightarrow> (Some e, st2, l)
                                 | Inr t \<Rightarrow> wp_move_absolute_deg (current_wp st2) t (st2, l))
                           else (None, st2, l)) of
                       (Some e, st3, l3) \<Rightarrow> (Some e, st3, l3)
                     | (None, st3, l3) \<Rightarrow>
                         (case advance st3 of (r, st4) \<Rightarrow> (r, st4, l3)))))"

text \<open>
  The measurement loop of the script: one call of \<open>coordinate_descent_2nd_order\<close> per
  sample; an exception that leaves the call ends the run.
\<close>

fun run_coordinate_descent ::
  "rat list \<Rightarrow> ContinuousPolarizationOptimizer \<times> link
     \<Rightarrow> error option \<times> ContinuousPolarizationOptimizer \<times> link" where
  "run_coordinate_descent [] s = (None, s)"
| "run_coordinate_descent (qber # rest) s =
     (case coordinate_descent_2nd_order qber s of
        (Some e, s1) \<Rightarrow> (Some e, s1)
      | (None, s1) \<Rightarrow> run_coordinate_descent rest s1)"

section \<open>Notions of the specification\<close>




text \<open>
  The history buffer is within its capacity: it holds at least one and at most
  \<open>n_stored\<close> QBER values, and no more position rows than QBER values.
\<close>

definition buffer_ok :: "ContinuousPolarizationOptimizer \<Rightarrow> bool" where
  "buffer_ok st =
     (previous_qbers st \<noteq> []
      \<and> int (length (previous_qbers st)) \<le> n_stored st
      \<and> length (previous_positions st) \<le> length (previous_qbers st))"

section \<open>The set-up of the script\<close>

text \<open>
  The script at the end of each file builds two controllers, at the addresses 0 and 2,
  on one port, and an optimizer over them. These are the concrete inputs at which the
  theorems below are instantiated.
\<close>

definition stage0 :: ElliptecController where
  "stage0 = \<lparr>address = ''0'', verbose = True, position = 0, pulses_per_turn = 143360\<rparr>"

definition stage2 :: ElliptecController where
  "stage2 = \<lparr>address = ''2'', verbose = True, position = 0, pulses_per_turn = 143360\<rparr>"

definition quiet :: link where
  "quiet = \<lparr>sent = [], inbox = []\<rparr>"

text \<open>
  The optimizer of the script (\<open>max_stepsize_deg = 3\<close>, the default threshold 0.01)
  as its constructor leaves it, for a given \<open>n_stored\<close>.
\<close>

definition script_optimizer :: "int \<Rightarrow> ContinuousPolarizationOptimizer" where
  "script_optimizer n =
     \<lparr>waveplates = [stage0, stage2], max_stepsize_deg = 3, threshold = 1 / 100,
      positions = [0, 0], current_wp = 0, current_pos = 1, origin_position = 0,
      qbers = [1 / 10, 1 / 10, 1 / 10], n_stored = n, previous_qbers = [1 / 2],
      previous_positions = [[0, 0]]\<rparr>"

text \<open>A link on which the device answers four commands with a position.\<close>

definition answering :: link where
  "answering =
     \<lparr>sent = [],
      inbox = [''0PO00000800'' @ crlf, ''2PO000001C0'' @ crlf,
               ''0PO00000002'' @ crlf, ''2PO00000400'' @ crlf]\<rparr>"

text \<open>Four samples for the random search: the QBER, the random step, the random stage.\<close>

definition four_samples :: "(rat \<times> rat \<times> nat) list" where
  "four_samples = [(1 / 20, 1, 0), (3 / 100, - 1 / 2, 1), (1 / 25, 2, 0), (1 / 25, - 3, 1)]"


section \<open>Conversion between degrees and pulses\<close>











section \<open>Decoding the position from a response\<close>


















section \<open>The cached position is a multiple of 0.01 degrees\<close>







section \<open>Construction\<close>

lemma script_optimizer_init:
  "optimizer_init [stage0, stage2] 3 (1 / 100) n = Inr (script_optimizer n)"
  by (simp add: optimizer_init_def script_optimizer_def)

text \<open>
  C3 (as stated, refuted). The constructors accept a negative step size, a zero
  \<open>n_stored\<close> and an address that is no hexadecimal digit.
\<close>

theorem C3_invalid_configuration_counterexample:
  "\<not> isl (optimizer_init [stage0, stage2] (- 1) (1 / 100) 1)
   \<and> \<not> isl (optimizer_init [stage0, stage2] 3 (1 / 100) 0)
   \<and> \<not> isl (fst (controller_init ''xyz'' False quiet))"
  by (simp add: optimizer_init_def controller_init_def)

text \<open>
  C3 (amended). Constructing an optimizer or a controller checks nothing and never
  fails: every step size, threshold, \<open>n_stored\<close> and address is stored as given, with
  the state machine at stage 0, slot 1 (centre), and the cached position at 0.
\<close>

theorem C3_constructors_accept_everything:
  "\<exists>st c. optimizer_init wps max_step thr n = Inr st
     \<and> waveplates st = wps \<and> max_stepsize_deg st = max_step \<and> threshold st = thr
     \<and> n_stored st = n \<and> current_wp st = 0 \<and> current_pos st = 1
     \<and> previous_qbers st = [1 / 2] \<and> length (previous_positions st) = 1
     \<and> controller_init addr verb l = (Inr c, l)
     \<and> address c = addr \<and> position c = 0 \<and> pulses_per_turn c = 143360"
  by (simp add: optimizer_init_def controller_init_def)

section \<open>Coordinate descent: the threshold\<close>

text \<open>
  C5. A call of \<open>coordinate_descent_2nd_order\<close> with a QBER strictly below the
  threshold returns without exception, sets the stage index to 0 and the slot to 1 (the
  centre), sends nothing on the link and changes nothing else.
\<close>

theorem C5_threshold_short_circuit:
  assumes "qber < threshold st"
  shows "coordinate_descent_2nd_order qber (st, l)
           = (None, st\<lparr>current_wp := 0, current_pos := 1\<rparr>, l)"
  using assms by (simp add: coordinate_descent_2nd_order_def)

theorem C5_threshold_short_circuit_witness:
  "(1 / 200 :: rat) < threshold ((script_optimizer 1)\<lparr>current_wp := 1, current_pos := 2\<rparr>)
   \<and> coordinate_descent_2nd_order (1 / 200)
         ((script_optimizer 1)\<lparr>current_wp := 1, current_pos := 2\<rparr>, answering)
       = (None, script_optimizer 1, answering)"
proof -
  have h: "(1 / 200 :: rat) < threshold ((script_optimizer 1)\<lparr>current_wp := 1, current_pos := 2\<rparr>)"
    by (simp add: script_optimizer_def)
  have "(script_optimizer 1)\<lparr>current_wp := 1, current_pos := 2\<rparr>\<lparr>current_wp := 0, current_pos := 1\<rparr>
          = script_optimizer 1"
    by (simp add: script_optimizer_def)
  with C5_threshold_short_circuit [OF h, of answering] h show ?thesis by simp
qed

section \<open>Random search: selection and history\<close>

lemma np_min_Min:
  assumes "xs \<noteq> []"
  shows "np_min xs = Inr (Min (set xs))"
proof (cases xs)
  case Nil
  with assms show ?thesis by simp
next
  case (Cons a list)
  show ?thesis using Min.set_eq_fold [of a list] by (simp add: Cons)
qed

lemma takeWhile_stops: "\<exists>x\<in>set xs. \<not> P x \<Longrightarrow> length (takeWhile P xs) < length xs"
  by (induction xs) auto

lemma np_argmin_first:
  assumes "xs \<noteq> []"
  shows "np_argmin xs < length xs"
    and "xs ! np_argmin xs = Min (set xs)"
    and "j < np_argmin xs \<Longrightarrow> Min (set xs) < xs ! j"
proof -
  let ?m = "Min (set xs)"
  let ?P = "\<lambda>y. y \<noteq> ?m"
  have a: "np_argmin xs = length (takeWhile ?P xs)"
    using assms by (simp add: np_argmin_def np_min_Min)
  have "?m \<in> set xs" using assms by (simp add: Min_in)
  then have "\<exists>x\<in>set xs. \<not> ?P x" by blast
  then show lt: "np_argmin xs < length xs"
    unfolding a by (rule takeWhile_stops)
  from nth_length_takeWhile [OF lt [unfolded a]]
  show "xs ! np_argmin xs = ?m" unfolding a by simp
  assume j: "j < np_argmin xs"
  then have "takeWhile ?P xs ! j \<in> set (takeWhile ?P xs)" unfolding a by (rule nth_mem)
  then have "?P (takeWhile ?P xs ! j)" by (rule set_takeWhileD [THEN conjunct2])
  moreover have "takeWhile ?P xs ! j = xs ! j" using j unfolding a by (rule takeWhile_nth)
  ultimately have "xs ! j \<noteq> ?m" by simp
  moreover have "xs ! j \<in> set xs" using j lt by simp
  then have "?m \<le> xs ! j" by simp
  ultimately show "?m < xs ! j" by simp
qed

lemma get_positions_two:
  "2 \<le> length (waveplates st) \<Longrightarrow>
   get_positions st
     = Inr [get_position_deg (waveplates st ! 0), get_position_deg (waveplates st ! 1)]"
  by (simp add: get_positions_def)


lemma try_buffers:
  assumes "length (waveplates st) = 2" and "previous_qbers st \<noteq> []"
    and "length (previous_positions st) = length (previous_qbers st)"
  shows "previous_qbers (random_minimizer_try qber st)
           = (if int (length (previous_qbers st)) < n_stored st
              then previous_qbers st @ [qber] else drop 1 (previous_qbers st) @ [qber])"
    and "previous_positions (random_minimizer_try qber st)
           = (if int (length (previous_qbers st)) < n_stored st
              then previous_positions st
                     @ [[get_position_deg (waveplates st ! 0), get_position_deg (waveplates st ! 1)]]
              else drop 1 (previous_positions st)
                     @ [[get_position_deg (waveplates st ! 0), get_position_deg (waveplates st ! 1)]])"
  using assms np_argmin_first(1) [OF assms(2)]
  by (simp_all add: random_minimizer_try_def get_positions_two np_min_Min np_row_def Let_def)

lemma try_n_stored: "n_stored (random_minimizer_try qber st) = n_stored st"
  by (simp add: random_minimizer_try_def Let_def split: sum.splits)

lemma try_waveplates: "waveplates (random_minimizer_try qber st) = waveplates st"
  by (simp add: random_minimizer_try_def Let_def split: sum.splits)

lemma try_buffer_ok:
  assumes "buffer_ok st"
  shows "buffer_ok (random_minimizer_try qber st)"
proof -
  from assms have "0 < length (previous_qbers st)" by (simp add: buffer_ok_def)
  then have "\<And>k. k \<le> length (previous_qbers st) \<Longrightarrow> Suc (k - Suc 0) \<le> length (previous_qbers st)"
    by linarith
  with assms show ?thesis
    by (auto simp: buffer_ok_def random_minimizer_try_def Let_def split: sum.splits)
qed


lemma wp_move_relative_deg_fields:
  assumes "wp_move_relative_deg i x (st, l) = (e, st1, l1)"
  shows "previous_qbers st1 = previous_qbers st"
    and "previous_positions st1 = previous_positions st"
    and "n_stored st1 = n_stored st"
  using assms
  by (auto simp: wp_move_relative_deg_def split: if_splits prod.splits)

lemma random_minimizer_fields:
  assumes "random_minimizer qber delta_phi wp (st, l) = (e, st1, l1)"
  shows "previous_qbers st1 = previous_qbers (random_minimizer_try qber st)"
    and "previous_positions st1 = previous_positions (random_minimizer_try qber st)"
    and "n_stored st1 = n_stored st"
proof -
  obtain e2 st2 l2 where
    m: "wp_move_relative_deg wp (Fin delta_phi) (random_minimizer_try qber st, l) = (e2, st2, l2)"
    by (cases "wp_move_relative_deg wp (Fin delta_phi) (random_minimizer_try qber st, l)") auto
  from assms m have
    "previous_qbers st1 = previous_qbers st2 \<and> previous_positions st1 = previous_positions st2
     \<and> n_stored st1 = n_stored st2"
    by (auto simp: random_minimizer_def split: option.splits sum.splits)
  with wp_move_relative_deg_fields [OF m]
  show "previous_qbers st1 = previous_qbers (random_minimizer_try qber st)"
    and "previous_positions st1 = previous_positions (random_minimizer_try qber st)"
    and "n_stored st1 = n_stored st"
    by (simp_all add: try_n_stored)
qed

lemma random_minimizer_buffer_ok:
  assumes "buffer_ok st" and "random_minimizer qber delta_phi wp (st, l) = (e, st1, l1)"
  shows "buffer_ok st1"
  using try_buffer_ok [OF assms(1), of qber] random_minimizer_fields [OF assms(2)]
  by (simp add: buffer_ok_def try_n_stored)

lemma run_random_minimizer_buffer_ok:
  "buffer_ok st \<Longrightarrow> run_random_minimizer xs (st, l) = (e, st1, l1) \<Longrightarrow> buffer_ok st1"
proof (induction xs arbitrary: st l)
  case Nil
  then show ?case by simp
next
  case (Cons x xs)
  obtain e2 st2 l2 where
    r: "random_minimizer (fst x) (fst (snd x)) (snd (snd x)) (st, l) = (e2, st2, l2)"
    by (cases "random_minimizer (fst x) (fst (snd x)) (snd (snd x)) (st, l)") auto
  from random_minimizer_buffer_ok [OF Cons.prems(1) r] have ok: "buffer_ok st2" .
  show ?case
  proof (cases e2)
    case None
    with Cons.prems(2) r have "run_random_minimizer xs (st2, l2) = (e, st1, l1)" by simp
    with ok show ?thesis by (rule Cons.IH)
  next
    case (Some err)
    with Cons.prems(2) r have "st1 = st2" by simp
    with ok show ?thesis by simp
  qed
qed

lemma init_buffer_ok:
  "1 \<le> n \<Longrightarrow> optimizer_init wps max_step thr n = Inr st \<Longrightarrow> buffer_ok st \<and> n_stored st = n"
  by (auto simp: optimizer_init_def buffer_ok_def)

lemma run_random_minimizer_n_stored:
  "run_random_minimizer xs (st, l) = (e, st1, l1) \<Longrightarrow> n_stored st1 = n_stored st"
proof (induction xs arbitrary: st l)
  case Nil
  then show ?case by simp
next
  case (Cons x xs)
  obtain e2 st2 l2 where
    r: "random_minimizer (fst x) (fst (snd x)) (snd (snd x)) (st, l) = (e2, st2, l2)"
    by (cases "random_minimizer (fst x) (fst (snd x)) (snd (snd x)) (st, l)") auto
  note n = random_minimizer_fields(3) [OF r]
  show ?case
  proof (cases e2)
    case None
    with Cons.prems r have "run_random_minimizer xs (st2, l2) = (e, st1, l1)" by simp
    then have "n_stored st1 = n_stored st2" by (rule Cons.IH)
    with n show ?thesis by simp
  next
    case (Some err)
    with Cons.prems r n show ?thesis by simp
  qed
qed



text \<open>
  C7. Each \<open>random_minimizer\<close> step on two waveplates appends the new QBER and the
  positions read to the history when it holds fewer than \<open>n_stored\<close> entries, and
  otherwise drops the oldest entry and appends. For \<open>n_stored \<ge> 1\<close> the history of an
  optimizer fresh from its constructor never holds more than \<open>n_stored\<close> entries, after
  any sequence of steps.
\<close>

theorem C7_history_is_fifo_ring:
  assumes "1 \<le> n"
  shows "(\<forall>st0 e st1 l1.
            optimizer_init wps max_step thr n = Inr st0
            \<and> run_random_minimizer xs (st0, l) = (e, st1, l1) \<longrightarrow>
            int (length (previous_qbers st1)) \<le> n
            \<and> length (previous_positions st1) \<le> length (previous_qbers st1))
     \<and> (\<forall>e st1 l1.
            length (waveplates st) = 2 \<and> previous_qbers st \<noteq> []
            \<and> length (previous_positions st) = length (previous_qbers st)
            \<and> random_minimizer qber delta_phi wp (st, l) = (e, st1, l1) \<longrightarrow>
            previous_qbers st1
              = (if int (length (previous_qbers st)) < n_stored st
                 then previous_qbers st @ [qber] else drop 1 (previous_qbers st) @ [qber])
            \<and> previous_positions st1
              = (if int (length (previous_qbers st)) < n_stored st
                 then previous_positions st
                        @ [[get_position_deg (waveplates st ! 0),
                            get_position_deg (waveplates st ! 1)]]
                 else drop 1 (previous_positions st)
                        @ [[get_position_deg (waveplates st ! 0),
                            get_position_deg (waveplates st ! 1)]]))"
proof (intro conjI allI impI)
  fix st0 e st1 l1
  assume a: "optimizer_init wps max_step thr n = Inr st0
             \<and> run_random_minimizer xs (st0, l) = (e, st1, l1)"
  from init_buffer_ok [OF assms] a have ok: "buffer_ok st0" and n: "n_stored st0 = n" by blast+
  from a have r: "run_random_minimizer xs (st0, l) = (e, st1, l1)" by simp
  from run_random_minimizer_buffer_ok [OF ok r] run_random_minimizer_n_stored [OF r] n
  show "int (length (previous_qbers st1)) \<le> n"
    and "length (previous_positions st1) \<le> length (previous_qbers st1)"
    by (simp_all add: buffer_ok_def)
next
  fix e st1 l1
  assume a: "length (waveplates st) = 2 \<and> previous_qbers st \<noteq> []
             \<and> length (previous_positions st) = length (previous_qbers st)
             \<and> random_minimizer qber delta_phi wp (st, l) = (e, st1, l1)"
  then have w: "length (waveplates st) = 2" and ne: "previous_qbers st \<noteq> []"
    and eq: "length (previous_positions st) = length (previous_qbers st)"
    and r: "random_minimizer qber delta_phi wp (st, l) = (e, st1, l1)" by simp_all
  show "previous_qbers st1
          = (if int (length (previous_qbers st)) < n_stored st
             then previous_qbers st @ [qber] else drop 1 (previous_qbers st) @ [qber])"
    unfolding random_minimizer_fields(1) [OF r] by (rule try_buffers(1) [OF w ne eq])
  show "previous_positions st1
          = (if int (length (previous_qbers st)) < n_stored st
             then previous_positions st
                    @ [[get_position_deg (waveplates st ! 0),
                        get_position_deg (waveplates st ! 1)]]
             else drop 1 (previous_positions st)
                    @ [[get_position_deg (waveplates st ! 0),
                        get_position_deg (waveplates st ! 1)]])"
    unfolding random_minimizer_fields(2) [OF r] by (rule try_buffers(2) [OF w ne eq])
qed


theorem C7_history_is_fifo_ring_witness:
  "(1 :: int) \<le> 3
   \<and> optimizer_init [stage0, stage2] 3 (1 / 100) 3 = Inr (script_optimizer 3)
   \<and> fst (run_random_minimizer four_samples (script_optimizer 3, answering)) = None
   \<and> previous_qbers (fst (snd (run_random_minimizer four_samples (script_optimizer 3, answering))))
       = [3 / 100, 1 / 25, 1 / 25]
   \<and> previous_positions (fst (snd (run_random_minimizer four_samples (script_optimizer 3, answering))))
       = [[257 / 50, 0], [257 / 50, 28 / 25], [1 / 100, 28 / 25]]
   \<and> int (length (previous_qbers
         (fst (snd (run_random_minimizer four_samples (script_optimizer 3, answering)))))) \<le> 3"
proof -
  have h: "(1 :: int) \<le> 3" by simp
  have i: "optimizer_init [stage0, stage2] 3 (1 / 100) 3 = Inr (script_optimizer 3)"
    by (simp add: optimizer_init_def script_optimizer_def)
  obtain e st1 l1 where
    r: "run_random_minimizer four_samples (script_optimizer 3, answering) = (e, st1, l1)"
    by (cases "run_random_minimizer four_samples (script_optimizer 3, answering)") auto
  from C7_history_is_fifo_ring [OF h, of "[stage0, stage2]" 3 "1 / 100" four_samples answering] i r
  have len: "int (length (previous_qbers st1)) \<le> 3" by blast
  have 1: "fst (run_random_minimizer four_samples (script_optimizer 3, answering)) = None"
    by code_simp
  have 2: "previous_qbers (fst (snd (run_random_minimizer four_samples (script_optimizer 3, answering))))
       = [3 / 100, 1 / 25, 1 / 25]"
    by code_simp
  have 3: "previous_positions (fst (snd (run_random_minimizer four_samples (script_optimizer 3, answering))))
       = [[257 / 50, 0], [257 / 50, 28 / 25], [1 / 100, 28 / 25]]"
    by code_simp
  from len r have 4: "int (length (previous_qbers
         (fst (snd (run_random_minimizer four_samples (script_optimizer 3, answering)))))) \<le> 3"
    by simp
  from h i 1 2 3 4 show ?thesis by (intro conjI)
qed

end
